theory Spec2Isabelle
  imports Main "HOL-Library.Word"
begin

section \<open>Exceptions, documents and strings\<close>

text \<open>
  A Python exception is kept as a value: its class, as far as the code under study names
  one, and the message that \<open>str(e)\<close> gives. A call that may raise returns
  \<open>exn + 'a\<close>, with \<open>Inl\<close> for the raise.
\<close>

datatype exn = Exception string | ValueError string

fun str_exn :: "exn \<Rightarrow> string" where
  "str_exn (Exception m) = m"
| "str_exn (ValueError m) = m"

datatype jvalue = JInt int | JStr string

type_synonym metadata = "(string \<times> jvalue) list"

record document =
  page_content :: string
  metadata :: metadata

definition nl :: string where
  "nl = [CHR 0x0A]"

text \<open>\<open>sep.join(parts)\<close> of Python.\<close>

fun join :: "string \<Rightarrow> string list \<Rightarrow> string" where
  "join sep [] = []"
| "join sep [x] = x"
| "join sep (x # y # ys) = x @ sep @ join sep (y # ys)"

text \<open>\<open>bytes.hex()\<close>: two lower-case hexadecimal digits for each byte.\<close>

definition hex_digit :: "nat \<Rightarrow> char" where
  "hex_digit n = ''0123456789abcdef'' ! n"

definition hex_byte :: "8 word \<Rightarrow> string" where
  "hex_byte b = [hex_digit (unat b div 16), hex_digit (unat b mod 16)]"

definition hex :: "8 word list \<Rightarrow> string" where
  "hex bs = concat (map hex_byte bs)"

section \<open>The vector store and the retriever (embeddings.py, retriever.py)\<close>

text \<open>
  Modelled from the spec: the nearest-neighbour query of a vector store. The stores
  themselves are the chromadb service and the langchain wrapper around it, whose code
  is not under src/. The spec gives the query as: results ordered by ascending distance
  (most similar first), at most \<open>k\<close> of them, fewer if the store holds fewer. An
  embedding is of any type \<open>'e\<close>, a distance of any linearly ordered type \<open>'d\<close>.
\<close>

definition nearest :: "('e \<Rightarrow> 'e \<Rightarrow> 'd::linorder) \<Rightarrow> 'e \<Rightarrow> nat \<Rightarrow> ('e \<times> 'a) list \<Rightarrow> ('a \<times> 'd) list" where
  "nearest dist q k es = take k (sort_key snd (map (\<lambda>(e, x). (x, dist e q)) es))"

text \<open>
  The local store handle: the embedding function it was built with (a call to the
  embedding model, which may raise), its distance and the entries it holds.
\<close>

record ('e, 'd) vectorstore =
  embed_query :: "string \<Rightarrow> exn + 'e"
  distance :: "'e \<Rightarrow> 'e \<Rightarrow> 'd"
  entries :: "('e \<times> document) list"

definition similarity_search :: "('e, 'd::linorder) vectorstore \<Rightarrow> string \<Rightarrow> nat \<Rightarrow> exn + document list" where
  "similarity_search vs query k =
     (case embed_query vs query of
        Inl e \<Rightarrow> Inl e
      | Inr q \<Rightarrow> Inr (map fst (nearest (distance vs) q k (entries vs))))"

text \<open>
  The retriever that \<open>vectorstore.as_retriever\<close> builds keeps the search type, the
  search arguments and the store; \<open>invoke\<close> takes the query text and nothing else.
\<close>

record ('e, 'd) retriever_handle =
  search_type :: string
  search_kwargs :: "(string \<times> nat) list"
  store :: "('e, 'd) vectorstore"

definition get_retriever :: "('e, 'd) vectorstore \<Rightarrow> ('e, 'd) retriever_handle" where
  "get_retriever vs = \<lparr>search_type = ''similarity'', search_kwargs = [(''k'', 4)], store = vs\<rparr>"

definition invoke :: "('e, 'd::linorder) retriever_handle \<Rightarrow> string \<Rightarrow> exn + document list" where
  "invoke r query =
     (case map_of (search_kwargs r) ''k'' of
        Some k \<Rightarrow> similarity_search (store r) query k
      | None \<Rightarrow> similarity_search (store r) query 4)"

section \<open>The generation model (model.py)\<close>

text \<open>
  The handle of the hosted model: the model name it was built with and the answer of the
  service to a prompt, which may raise.
\<close>

record llm_handle =
  model :: string
  llm_invoke :: "string \<Rightarrow> exn + string"

section \<open>The chat service (app.py)\<close>

record ('e, 'd) globals =
  vectorstore :: "('e, 'd) vectorstore option"
  retriever :: "('e, 'd) retriever_handle option"
  llm :: "llm_handle option"

definition initial_globals :: "('e, 'd) globals" where
  "initial_globals = \<lparr>vectorstore = None, retriever = None, llm = None\<rparr>"

text \<open>
  What startup reads from outside the process: whether the store directory exists, the
  pages the PDF loader returns, the library's splitter, the embedding model, the entries
  persisted on disk, the distance of the store and the construction of the hosted model.
  \<open>CHUNK_SIZE\<close>, \<open>CHUNK_OVERLAP\<close> and \<open>GROQ_MODEL\<close> are constants of config.py, which is
  not under src/.
\<close>

record ('e, 'd) env =
  CHROMA_DIR_exists :: bool
  PyPDFLoader_load :: "exn + document list"
  CHUNK_SIZE :: nat
  CHUNK_OVERLAP :: nat
  split_documents :: "nat \<Rightarrow> nat \<Rightarrow> document list \<Rightarrow> document list"
  HuggingFaceEmbeddings :: "exn + (string \<Rightarrow> exn + 'e)"
  persisted :: "('e \<times> document) list"
  store_distance :: "'e \<Rightarrow> 'e \<Rightarrow> 'd"
  GROQ_MODEL :: string
  ChatGroq :: "exn + (string \<Rightarrow> exn + string)"

definition load_and_split_documents :: "('e, 'd) env \<Rightarrow> exn + document list" where
  "load_and_split_documents env =
     (case PyPDFLoader_load env of
        Inl e \<Rightarrow> Inl e
      | Inr documents \<Rightarrow> Inr (split_documents env (CHUNK_SIZE env) (CHUNK_OVERLAP env) documents))"

text \<open>Embedding the documents one after the other; the first failure is raised.\<close>

fun embed_documents :: "(string \<Rightarrow> exn + 'e) \<Rightarrow> document list \<Rightarrow> exn + ('e \<times> document) list" where
  "embed_documents f [] = Inr []"
| "embed_documents f (d # ds) =
     (case f (page_content d) of
        Inl e \<Rightarrow> Inl e
      | Inr v \<Rightarrow> (case embed_documents f ds of Inl e \<Rightarrow> Inl e | Inr vs \<Rightarrow> Inr ((v, d) # vs)))"

text \<open>
  \<open>get_vectorstore(documents=None)\<close>: \<open>if documents:\<close> is false for \<open>None\<close> and for the
  empty list, and then the persisted store is loaded.
\<close>

definition get_vectorstore :: "('e, 'd) env \<Rightarrow> document list option \<Rightarrow> exn + ('e, 'd) vectorstore" where
  "get_vectorstore env documents =
     (case HuggingFaceEmbeddings env of
        Inl e \<Rightarrow> Inl e
      | Inr embeddings \<Rightarrow>
          (case documents of
             Some (d # ds) \<Rightarrow>
               (case embed_documents embeddings (d # ds) of
                  Inl e \<Rightarrow> Inl e
                | Inr new \<Rightarrow>
                    Inr \<lparr>embed_query = embeddings, distance = store_distance env,
                         entries = persisted env @ new\<rparr>)
           | _ \<Rightarrow>
               Inr \<lparr>embed_query = embeddings, distance = store_distance env,
                    entries = persisted env\<rparr>))"

definition get_llm :: "('e, 'd) env \<Rightarrow> exn + llm_handle" where
  "get_llm env =
     (case ChatGroq env of
        Inl e \<Rightarrow> Inl e
      | Inr f \<Rightarrow> Inr \<lparr>model = GROQ_MODEL env, llm_invoke = f\<rparr>)"

text \<open>
  \<open>startup_event\<close> assigns the three globals one after the other, so a raise leaves the
  ones assigned before it. The result is the exception raised, if any, and the globals.
\<close>

definition startup_event :: "('e, 'd) env \<Rightarrow> ('e, 'd) globals \<Rightarrow> exn option \<times> ('e, 'd) globals" where
  "startup_event env g =
     (case (if \<not> CHROMA_DIR_exists env
            then (case load_and_split_documents env of
                    Inl e \<Rightarrow> Inl e
                  | Inr docs \<Rightarrow> get_vectorstore env (Some docs))
            else get_vectorstore env None) of
        Inl e \<Rightarrow> (Some e, g)
      | Inr vs \<Rightarrow>
          (let g1 = g\<lparr>vectorstore := Some vs\<rparr>;
               g2 = g1\<lparr>retriever := Some (get_retriever vs)\<rparr>
           in case get_llm env of
                Inl e \<Rightarrow> (Some e, g2)
              | Inr l \<Rightarrow> (None, g2\<lparr>llm := Some l\<rparr>)))"

datatype ChatRequest = ChatRequest (message: string) (conversation_id: "string option")

datatype ChatResponse = ChatResponse (reply_message: string) (reply_conversation_id: string)

datatype HTTPException = HTTPException nat string

text \<open>The calls a request makes to the outside, in order.\<close>

datatype event = Retriever_invoke string | Llm_invoke string | Os_urandom nat

definition prompt_template :: "string \<Rightarrow> string \<Rightarrow> string" where
  "prompt_template context_block question =
     ''You are ShareMatch AI, a helpful assistant for the ShareMatch platform. '' @ nl @
     ''Answer the question based on the context provided. Be friendly, professional, and concise.'' @ nl @
     ''If you don'' @ [CHR 0x27] @ ''t know the answer based on the context, say so politely and suggest contacting support.'' @ nl @
     nl @
     ''Context:'' @ nl @
     context_block @ nl @
     nl @
     ''Question: '' @ question @ nl @
     nl @
     ''Answer:''"

text \<open>
  The body of the \<open>try\<close> block of \<open>chat\<close>: the calls made and either the exception raised
  or the response. \<open>request.conversation_id or f"conv_{os.urandom(8).hex()}"\<close> takes the
  right operand when the left one is \<open>None\<close> or the empty string, and only then calls
  \<open>os.urandom\<close>.
\<close>

definition chat_body :: "('e, 'd::linorder) retriever_handle \<Rightarrow> llm_handle \<Rightarrow> (nat \<Rightarrow> 8 word list) \<Rightarrow> ChatRequest \<Rightarrow> event list \<times> (exn + ChatResponse)" where
  "chat_body r l os_urandom request =
     (case invoke r (message request) of
        Inl e \<Rightarrow> ([Retriever_invoke (message request)], Inl e)
      | Inr docs \<Rightarrow>
          (let context_block = join (nl @ nl) (map page_content docs);
               prompt = prompt_template context_block (message request)
           in case llm_invoke l prompt of
                Inl e \<Rightarrow> ([Retriever_invoke (message request), Llm_invoke prompt], Inl e)
              | Inr content \<Rightarrow>
                  (case conversation_id request of
                     Some (c # cs) \<Rightarrow>
                       ([Retriever_invoke (message request), Llm_invoke prompt],
                        Inr (ChatResponse content (c # cs)))
                   | _ \<Rightarrow>
                       ([Retriever_invoke (message request), Llm_invoke prompt, Os_urandom 8],
                        Inr (ChatResponse content (''conv_'' @ hex (os_urandom 8)))))))"

text \<open>
  \<open>chat\<close>: the globals after the request, the calls made, and the HTTP exception raised
  or the response returned.
\<close>

definition chat :: "('e, 'd::linorder) globals \<Rightarrow> (nat \<Rightarrow> 8 word list) \<Rightarrow> ChatRequest \<Rightarrow> ('e, 'd) globals \<times> event list \<times> (HTTPException + ChatResponse)" where
  "chat g os_urandom request =
     (case (retriever g, llm g) of
        (Some r, Some l) \<Rightarrow>
          (case chat_body r l os_urandom request of
             (tr, Inl e) \<Rightarrow>
               (g, tr, Inl (HTTPException 500 (''Error processing your message: '' @ str_exn e)))
           | (tr, Inr response) \<Rightarrow> (g, tr, Inr response))
      | _ \<Rightarrow> (g, [], Inl (HTTPException 503 ''Chatbot not initialized'')))"

definition status :: "HTTPException + ChatResponse \<Rightarrow> nat" where
  "status r = (case r of Inl (HTTPException status_code detail) \<Rightarrow> status_code | Inr _ \<Rightarrow> 200)"

section \<open>The cloud store (chroma_cloud.py)\<close>

text \<open>
  Modelled from the spec: the remote service behind the chromadb client, whose code is
  not under src/. It holds named collections of entries \<open>{id, embedding, text, metadata}\<close>.
  Every call to it may fail; \<open>faults\<close> lists, for the calls still to come, the message of
  the failure or \<open>None\<close> for a call that goes through (no fault is left when the list is
  empty). \<open>CHROMA_API_KEY\<close> and \<open>CHROMA_COLLECTION\<close> are read from the environment.
\<close>

record 'e entry =
  entry_id :: string
  entry_embedding :: 'e
  entry_document :: string
  entry_metadata :: metadata

record ('e, 'd) cloud =
  CHROMA_API_KEY :: "string option"
  CHROMA_COLLECTION :: string
  collections :: "string \<rightharpoonup> 'e entry list"
  metric :: "'e \<Rightarrow> 'e \<Rightarrow> 'd"
  faults :: "string option list"

definition remote_call :: "('e, 'd) cloud \<Rightarrow> string option \<times> ('e, 'd) cloud" where
  "remote_call w = (case faults w of [] \<Rightarrow> (None, w) | f # fs \<Rightarrow> (f, w\<lparr>faults := fs\<rparr>))"

definition client_get_or_create_collection :: "('e, 'd) cloud \<Rightarrow> string \<Rightarrow> (exn + string) \<times> ('e, 'd) cloud" where
  "client_get_or_create_collection w name =
     (case remote_call w of
        (Some m, w') \<Rightarrow> (Inl (Exception m), w')
      | (None, w') \<Rightarrow>
          (case collections w' name of
             None \<Rightarrow> (Inr name, w'\<lparr>collections := (collections w')(name \<mapsto> [])\<rparr>)
           | Some es \<Rightarrow> (Inr name, w')))"


definition collection_count :: "('e, 'd) cloud \<Rightarrow> string \<Rightarrow> (exn + nat) \<times> ('e, 'd) cloud" where
  "collection_count w name =
     (case remote_call w of
        (Some m, w') \<Rightarrow> (Inl (Exception m), w')
      | (None, w') \<Rightarrow>
          (case collections w' name of
             None \<Rightarrow> (Inl (ValueError (''Collection '' @ name @ '' does not exist.'')), w')
           | Some es \<Rightarrow> (Inr (length es), w')))"



record 'd query_result =
  ids :: "string list list"
  documents :: "string list list"
  metadatas :: "metadata list list"
  distances :: "'d list list"


text \<open>\<open>str(i)\<close> of a natural number, in decimal.\<close>

definition digit :: "nat \<Rightarrow> char" where
  "digit n = ''0123456789'' ! n"

fun str_nat :: "nat \<Rightarrow> string" where
  "str_nat n = (if n < 10 then [digit n] else str_nat (n div 10) @ [digit (n mod 10)])"

text \<open>
  From here on the definitions follow chroma_cloud.py. The client handle carries nothing
  the model needs (\<open>unit\<close>); a collection handle is the name of the collection.
\<close>

definition get_chroma_cloud_client :: "('e, 'd) cloud \<Rightarrow> (exn + unit) \<times> ('e, 'd) cloud" where
  "get_chroma_cloud_client w =
     (case CHROMA_API_KEY w of
        Some (c # cs) \<Rightarrow>
          (case remote_call w of
             (Some m, w') \<Rightarrow> (Inl (Exception m), w')
           | (None, w') \<Rightarrow> (Inr (), w'))
      | _ \<Rightarrow> (Inl (ValueError ''CHROMA_API_KEY environment variable is required''), w))"

definition get_or_create_collection :: "unit option \<Rightarrow> ('e, 'd) cloud \<Rightarrow> (exn + string) \<times> ('e, 'd) cloud" where
  "get_or_create_collection client w =
     (case client of
        None \<Rightarrow>
          (case get_chroma_cloud_client w of
             (Inl e, w') \<Rightarrow> (Inl e, w')
           | (Inr c, w') \<Rightarrow> client_get_or_create_collection w' (CHROMA_COLLECTION w'))
      | Some c \<Rightarrow> client_get_or_create_collection w (CHROMA_COLLECTION w))"





text \<open>\<open>get_collection_count\<close>: everything is inside the \<open>try\<close>; any exception gives 0.\<close>

definition get_collection_count :: "('e, 'd) cloud \<Rightarrow> nat \<times> ('e, 'd) cloud" where
  "get_collection_count w =
     (case get_chroma_cloud_client w of
        (Inl e, w1) \<Rightarrow> (0, w1)
      | (Inr client, w1) \<Rightarrow>
          (case get_or_create_collection (Some client) w1 of
             (Inl e, w2) \<Rightarrow> (0, w2)
           | (Inr collection, w2) \<Rightarrow>
               (case collection_count w2 collection of
                  (Inl e, w3) \<Rightarrow> (0, w3)
                | (Inr n, w3) \<Rightarrow> (n, w3))))"

text \<open>The entries of the configured collection; none when the collection is absent.\<close>

definition stored :: "('e, 'd) cloud \<Rightarrow> 'e entry list" where
  "stored w = (case collections w (CHROMA_COLLECTION w) of None \<Rightarrow> [] | Some es \<Rightarrow> es)"


section \<open>The seeding workflow (seed_to_supabase.py)\<close>

text \<open>
  The answer of an HTTP service to a request of the \<open>requests\<close> library: the status code,
  the body as text and the body as parsed JSON. \<open>Inl\<close> stands for a request that raises
  (no connection).
\<close>

record 'b response =
  status_code :: nat
  response_text :: string
  response_json :: 'b

record 'e row =
  row_content :: string
  row_embedding :: 'e
  row_metadata :: metadata

text \<open>
  What the run meets outside the process: the answer of the embedding service and of the
  table's insert endpoint to the request made for chunk \<open>i\<close>, and the answer of the
  delete endpoint. A row is in the table when the insert endpoint answers 200 or 201; the
  table is empty when the delete endpoint answers 200 or 204.
\<close>

record 'e services =
  hf_post :: "nat \<Rightarrow> string \<Rightarrow> exn + 'e response"
  supabase_post :: "nat \<Rightarrow> 'e row \<Rightarrow> exn + unit response"
  supabase_delete :: "exn + unit response"

datatype seed_event = Embedding_call nat | Insert_call nat | Sleep_ms nat | Error_printed string

record 'e seed_state =
  table_rows :: "'e row list"
  success_count :: nat
  seed_trace :: "seed_event list"

definition generate_embedding :: "(string \<Rightarrow> exn + 'e response) \<Rightarrow> string \<Rightarrow> exn + 'e" where
  "generate_embedding post content =
     (case post content of
        Inl e \<Rightarrow> Inl e
      | Inr response \<Rightarrow>
          if status_code response \<noteq> 200
          then Inl (Exception (''Embedding API error: '' @ response_text response))
          else Inr (response_json response))"

definition insert_to_supabase :: "('e row \<Rightarrow> exn + unit response) \<Rightarrow> 'e row \<Rightarrow> 'e row list \<Rightarrow> exn option \<times> 'e row list" where
  "insert_to_supabase post data rows =
     (case post data of
        Inl e \<Rightarrow> (Some e, rows)
      | Inr response \<Rightarrow>
          if status_code response \<notin> {200, 201}
          then (Some (Exception (''Supabase insert error: '' @ response_text response)), rows)
          else (None, rows @ [data]))"

definition clear_existing_embeddings :: "exn + unit response \<Rightarrow> 'e row list \<Rightarrow> exn option \<times> 'e row list" where
  "clear_existing_embeddings answer rows =
     (case answer of
        Inl e \<Rightarrow> (Some e, rows)
      | Inr response \<Rightarrow>
          if status_code response \<notin> {200, 204} then (None, rows) else (None, []))"

definition chunk_row :: "nat \<Rightarrow> document \<Rightarrow> 'e \<Rightarrow> 'e row" where
  "chunk_row i chunk embedding =
     \<lparr>row_content = page_content chunk, row_embedding = embedding,
      row_metadata = [(''source'', JStr ''faq.pdf''),
                      (''page'', case map_of (metadata chunk) ''page'' of None \<Rightarrow> JInt 0 | Some p \<Rightarrow> p),
                      (''chunk_index'', JInt (int i))]\<rparr>"

text \<open>
  One pass of the \<open>for\<close> loop of \<open>main\<close>, for chunk \<open>i\<close>: the body of the \<open>try\<close> runs to
  the first exception, which the \<open>except\<close> prints before the loop continues.
\<close>

definition process_chunk :: "'e services \<Rightarrow> nat \<Rightarrow> document \<Rightarrow> 'e seed_state \<Rightarrow> 'e seed_state" where
  "process_chunk w i chunk s =
     (let content = page_content chunk;
          s1 = s\<lparr>seed_trace := seed_trace s @ [Embedding_call i]\<rparr>
      in case generate_embedding (hf_post w i) content of
           Inl e \<Rightarrow> s1\<lparr>seed_trace := seed_trace s1 @ [Error_printed (str_exn e)]\<rparr>
         | Inr embedding \<Rightarrow>
             (let s2 = s1\<lparr>seed_trace := seed_trace s1 @ [Insert_call i]\<rparr>
              in case insert_to_supabase (supabase_post w i) (chunk_row i chunk embedding) (table_rows s2) of
                   (Some e, rows) \<Rightarrow>
                     s2\<lparr>table_rows := rows, seed_trace := seed_trace s2 @ [Error_printed (str_exn e)]\<rparr>
                 | (None, rows) \<Rightarrow>
                     s2\<lparr>table_rows := rows, success_count := success_count s2 + 1,
                        seed_trace := seed_trace s2 @ [Sleep_ms 500]\<rparr>))"

fun seed_loop :: "'e services \<Rightarrow> nat \<Rightarrow> document list \<Rightarrow> 'e seed_state \<Rightarrow> 'e seed_state" where
  "seed_loop w i [] s = s"
| "seed_loop w i (chunk # chunks) s = seed_loop w (Suc i) chunks (process_chunk w i chunk s)"

text \<open>
  \<open>main\<close>, given the chunks that \<open>load_and_split_documents\<close> returned and the rows of the
  table before the run: the exception that ends the run before the loop, or the pair
  \<open>(success_count, len(chunks))\<close> that the last line reports; and the state at the end.
\<close>

definition main :: "'e services \<Rightarrow> exn + document list \<Rightarrow> 'e row list \<Rightarrow> (exn + nat \<times> nat) \<times> 'e seed_state" where
  "main w loaded rows =
     (case loaded of
        Inl e \<Rightarrow> (Inl e, \<lparr>table_rows = rows, success_count = 0, seed_trace = []\<rparr>)
      | Inr chunks \<Rightarrow>
          (case clear_existing_embeddings (supabase_delete w) rows of
             (Some e, rows') \<Rightarrow> (Inl e, \<lparr>table_rows = rows', success_count = 0, seed_trace = []\<rparr>)
           | (None, rows') \<Rightarrow>
               (let s = seed_loop w 0 chunks \<lparr>table_rows = rows', success_count = 0, seed_trace = []\<rparr>
                in (Inr (success_count s, length chunks), s))))"

text \<open>Whether chunk \<open>i\<close> goes through: its embedding call and its insert call both succeed.\<close>

definition chunk_ok :: "'e services \<Rightarrow> nat \<Rightarrow> document \<Rightarrow> bool" where
  "chunk_ok w i chunk =
     (case generate_embedding (hf_post w i) (page_content chunk) of
        Inl e \<Rightarrow> False
      | Inr embedding \<Rightarrow>
          (case supabase_post w i (chunk_row i chunk embedding) of
             Inl e \<Rightarrow> False
           | Inr response \<Rightarrow> status_code response \<in> {200, 201}))"

text \<open>The rows of the chunks that go through, in order, starting at index \<open>i\<close>.\<close>

fun rows_of :: "'e services \<Rightarrow> nat \<Rightarrow> document list \<Rightarrow> 'e row list" where
  "rows_of w i [] = []"
| "rows_of w i (chunk # chunks) =
     (case generate_embedding (hf_post w i) (page_content chunk) of
        Inl e \<Rightarrow> rows_of w (Suc i) chunks
      | Inr embedding \<Rightarrow>
          if chunk_ok w i chunk then chunk_row i chunk embedding # rows_of w (Suc i) chunks
          else rows_of w (Suc i) chunks)"

fun count_ok :: "'e services \<Rightarrow> nat \<Rightarrow> document list \<Rightarrow> nat" where
  "count_ok w i [] = 0"
| "count_ok w i (chunk # chunks) = (if chunk_ok w i chunk then 1 else 0) + count_ok w (Suc i) chunks"

text \<open>
  Whether every embedding call of a trace but the first has a sleep between it and the
  embedding call before it. \<open>slept\<close> tells whether a sleep was met since the last call.
\<close>

fun delayed :: "bool \<Rightarrow> seed_event list \<Rightarrow> bool" where
  "delayed slept [] = True"
| "delayed slept (Embedding_call i # evs) = (slept \<and> delayed False evs)"
| "delayed slept (Sleep_ms t # evs) = delayed True evs"
| "delayed slept (ev # evs) = delayed slept evs"

text \<open>The indices of the embedding calls of a trace, and the errors it printed, in order.\<close>

fun embedding_calls :: "seed_event list \<Rightarrow> nat list" where
  "embedding_calls [] = []"
| "embedding_calls (Embedding_call i # evs) = i # embedding_calls evs"
| "embedding_calls (ev # evs) = embedding_calls evs"

fun errors_printed :: "seed_event list \<Rightarrow> string list" where
  "errors_printed [] = []"
| "errors_printed (Error_printed m # evs) = m # errors_printed evs"
| "errors_printed (ev # evs) = errors_printed evs"

text \<open>
  The indices of the chunks that go through, and the embedding the service returned for
  chunk \<open>j\<close>.
\<close>

definition ok_indices :: "'e services \<Rightarrow> document list \<Rightarrow> nat list" where
  "ok_indices w chunks = filter (\<lambda>j. chunk_ok w j (chunks ! j)) [0..<length chunks]"

definition embedding_of :: "'e services \<Rightarrow> document list \<Rightarrow> nat \<Rightarrow> 'e" where
  "embedding_of w chunks j = projr (generate_embedding (hf_post w j) (page_content (chunks ! j)))"

section \<open>Concrete inputs\<close>

text \<open>
  A small store over integer embeddings with the absolute difference as distance, a
  generation model that always gives the same answer, and the globals and environment
  built from them; then variants in which one part fails.
\<close>

definition demo_docs :: "(int \<times> document) list" where
  "demo_docs =
     [(30, \<lparr>page_content = ''Fees are charged per trade.'', metadata = [(''page'', JInt 1)]\<rparr>),
      (19, \<lparr>page_content = ''ShareMatch is a trading platform for sports outcomes'', metadata = [(''page'', JInt 0)]\<rparr>)]"

definition demo_store :: "(int, int) vectorstore" where
  "demo_store = \<lparr>embed_query = (\<lambda>s. Inr (int (length s))), distance = (\<lambda>a b. \<bar>a - b\<bar>), entries = demo_docs\<rparr>"

definition demo_llm :: llm_handle where
  "demo_llm = \<lparr>model = ''llama'', llm_invoke = (\<lambda>p. Inr ''ShareMatch is a trading platform.'')\<rparr>"

definition demo_globals :: "(int, int) globals" where
  "demo_globals = \<lparr>vectorstore = Some demo_store, retriever = Some (get_retriever demo_store), llm = Some demo_llm\<rparr>"

definition demo_env :: "(int, int) env" where
  "demo_env = \<lparr>CHROMA_DIR_exists = True, PyPDFLoader_load = Inr [], CHUNK_SIZE = 500, CHUNK_OVERLAP = 50,
     split_documents = (\<lambda>size overlap ds. ds), HuggingFaceEmbeddings = Inr (\<lambda>s. Inr (int (length s))),
     persisted = demo_docs, store_distance = (\<lambda>a b. \<bar>a - b\<bar>), GROQ_MODEL = ''llama'',
     ChatGroq = Inr (\<lambda>p. Inr ''ShareMatch is a trading platform.'')\<rparr>"

definition zero_urandom :: "nat \<Rightarrow> 8 word list" where
  "zero_urandom n = replicate n 0"

definition demo_request :: ChatRequest where
  "demo_request = ChatRequest ''What is ShareMatch?'' None"

definition broken_env :: "(int, int) env" where
  "broken_env = demo_env\<lparr>ChatGroq := Inl (Exception ''The api_key client option must be set'')\<rparr>"

definition broken_store :: "(int, int) vectorstore" where
  "broken_store = demo_store\<lparr>embed_query := (\<lambda>s. Inl (Exception ''embedding model not loaded''))\<rparr>"

definition broken_llm :: llm_handle where
  "broken_llm = \<lparr>model = ''llama'', llm_invoke = (\<lambda>p. Inl (Exception ''Connection error.''))\<rparr>"

definition broken_store_globals :: "(int, int) globals" where
  "broken_store_globals = \<lparr>vectorstore = Some broken_store, retriever = Some (get_retriever broken_store), llm = Some demo_llm\<rparr>"

definition broken_llm_globals :: "(int, int) globals" where
  "broken_llm_globals = \<lparr>vectorstore = Some demo_store, retriever = Some (get_retriever demo_store), llm = Some broken_llm\<rparr>"

definition demo_context :: string where
  "demo_context = ''ShareMatch is a trading platform for sports outcomes'' @ nl @ nl @ ''Fees are charged per trade.''"

definition empty_id_request :: ChatRequest where
  "empty_id_request = ChatRequest ''What is ShareMatch?'' (Some [])"

definition given_id_request :: ChatRequest where
  "given_id_request = ChatRequest ''What is ShareMatch?'' (Some ''conv_42'')"

definition ff_urandom :: "nat \<Rightarrow> 8 word list" where
  "ff_urandom n = replicate n 255"

definition fees_request :: ChatRequest where
  "fees_request = ChatRequest ''How do fees work?'' None"

text \<open>
  A cloud store that answers every call, with five entries in the configured collection,
  and the same store with no collection yet.
\<close>

definition demo_entries :: "int entry list" where
  "demo_entries =
     [\<lparr>entry_id = ''doc_0'', entry_embedding = 30, entry_document = ''Fees are charged per trade.'', entry_metadata = []\<rparr>,
      \<lparr>entry_id = ''doc_1'', entry_embedding = 19, entry_document = ''ShareMatch is a trading platform for sports outcomes'', entry_metadata = []\<rparr>,
      \<lparr>entry_id = ''doc_2'', entry_embedding = 7, entry_document = ''Log in.'', entry_metadata = []\<rparr>,
      \<lparr>entry_id = ''doc_3'', entry_embedding = 25, entry_document = ''Withdrawals take two days.'', entry_metadata = []\<rparr>,
      \<lparr>entry_id = ''doc_4'', entry_embedding = 12, entry_document = ''Contact us.'', entry_metadata = []\<rparr>]"

definition demo_cloud :: "(int, int) cloud" where
  "demo_cloud = \<lparr>CHROMA_API_KEY = Some ''ck-1'', CHROMA_COLLECTION = ''sharematch_faq'',
     collections = [''sharematch_faq'' \<mapsto> demo_entries], metric = (\<lambda>a b. \<bar>a - b\<bar>), faults = []\<rparr>"


text \<open>
  The same store without an API key, with a service that fails the first, the second or
  the third call, and after its collection was emptied.
\<close>

definition no_key_cloud :: "(int, int) cloud" where
  "no_key_cloud = demo_cloud\<lparr>CHROMA_API_KEY := None\<rparr>"

definition refused_cloud :: "(int, int) cloud" where
  "refused_cloud = demo_cloud\<lparr>faults := [Some ''Connection refused'']\<rparr>"

definition unreachable_cloud :: "(int, int) cloud" where
  "unreachable_cloud = demo_cloud\<lparr>faults := [None, Some ''Collection unavailable'']\<rparr>"

definition count_fails_cloud :: "(int, int) cloud" where
  "count_fails_cloud = demo_cloud\<lparr>faults := [None, None, Some ''Read timed out'']\<rparr>"

definition cleared_cloud :: "(int, int) cloud" where
  "cleared_cloud = demo_cloud\<lparr>collections := [''sharematch_faq'' \<mapsto> []]\<rparr>"

text \<open>
  Chunks of a document, an embedding service that answers 503 for chunk \<open>k\<close> and 200 for
  every other one, with a table that accepts every row, and a row left by an earlier run.
\<close>

definition faq_chunk :: "nat \<Rightarrow> document" where
  "faq_chunk i = \<lparr>page_content = ''Question '' @ str_nat i, metadata = [(''page'', JInt (int (i div 4)))]\<rparr>"

definition ten_chunks :: "document list" where
  "ten_chunks = [faq_chunk 0, faq_chunk 1, faq_chunk 2, faq_chunk 3, faq_chunk 4,
                 faq_chunk 5, faq_chunk 6, faq_chunk 7, faq_chunk 8, faq_chunk 9]"

definition two_chunks :: "document list" where
  "two_chunks = [faq_chunk 0, faq_chunk 1]"

definition fails_at :: "nat \<Rightarrow> int services" where
  "fails_at k =
     \<lparr>hf_post = (\<lambda>i content. Inr (if i = k
                 then \<lparr>status_code = 503, response_text = ''Model is loading'', response_json = 0\<rparr>
                 else \<lparr>status_code = 200, response_text = [], response_json = int (length content)\<rparr>)),
      supabase_post = (\<lambda>i data. Inr \<lparr>status_code = 201, response_text = [], response_json = ()\<rparr>),
      supabase_delete = Inr \<lparr>status_code = 204, response_text = [], response_json = ()\<rparr>\<rparr>"

definition stale_row :: "int row" where
  "stale_row = \<lparr>row_content = ''Old answer'', row_embedding = 10, row_metadata = []\<rparr>"




section \<open>Properties of the chat service\<close>

lemma chat_not_ready:
  "retriever g = None \<or> llm g = None \<Longrightarrow>
     chat g rnd req = (g, [], Inl (HTTPException 503 ''Chatbot not initialized''))"
  by (auto simp: chat_def split: option.splits)

lemma chat_ready_status:
  assumes "retriever g = Some r" "llm g = Some l"
  shows "status (snd (snd (chat g rnd req))) \<noteq> 503"
  using assms by (auto simp: chat_def status_def split: prod.splits sum.splits)

lemma startup_ok_ready:
  assumes "startup_event env g0 = (None, g)"
  shows "\<exists>r l. retriever g = Some r \<and> llm g = Some l"
  using assms
  by (auto simp: startup_event_def Let_def split: sum.splits if_splits)

lemma startup_failed_not_ready:
  assumes "startup_event env initial_globals = (Some e, g)"
  shows "retriever g = None \<or> llm g = None"
  using assms
  by (auto simp: startup_event_def Let_def initial_globals_def split: sum.splits if_splits)

lemma demo_startup: "startup_event demo_env initial_globals = (None, demo_globals)"
  by (simp add: startup_event_def demo_env_def initial_globals_def demo_globals_def
      get_vectorstore_def get_llm_def demo_store_def demo_llm_def Let_def)

lemma broken_startup:
  "startup_event broken_env initial_globals =
     (Some (Exception ''The api_key client option must be set''),
      \<lparr>vectorstore = Some demo_store, retriever = Some (get_retriever demo_store), llm = None\<rparr>)"
  by (simp add: startup_event_def broken_env_def demo_env_def initial_globals_def
      get_vectorstore_def get_llm_def demo_store_def Let_def)

text \<open>
  C1. A chat request that arrives while the retriever or the generation model handle is
  not yet set (before startup has built them, or after a startup that failed) is answered
  with the HTTP exception 503 and makes no call to retrieval or generation: the list of
  calls is empty. After a startup that succeeded no request is answered with 503.
\<close>

theorem chat_503_iff_not_ready:
  "(retriever g = None \<or> llm g = None \<longrightarrow>
      chat g rnd req = (g, [], Inl (HTTPException 503 ''Chatbot not initialized'')))
   \<and> (startup_event env1 initial_globals = (Some e, g1) \<longrightarrow>
      chat g1 rnd1 req1 = (g1, [], Inl (HTTPException 503 ''Chatbot not initialized'')))
   \<and> (startup_event env2 g0 = (None, g2) \<longrightarrow> status (snd (snd (chat g2 rnd2 req2))) \<noteq> 503)"
proof (intro conjI impI)
  assume "retriever g = None \<or> llm g = None"
  then show "chat g rnd req = (g, [], Inl (HTTPException 503 ''Chatbot not initialized''))"
    by (rule chat_not_ready)
next
  assume "startup_event env1 initial_globals = (Some e, g1)"
  then have "retriever g1 = None \<or> llm g1 = None"
    by (rule startup_failed_not_ready)
  then show "chat g1 rnd1 req1 = (g1, [], Inl (HTTPException 503 ''Chatbot not initialized''))"
    by (rule chat_not_ready)
next
  assume "startup_event env2 g0 = (None, g2)"
  then obtain r l where "retriever g2 = Some r" "llm g2 = Some l"
    using startup_ok_ready by blast
  then show "status (snd (snd (chat g2 rnd2 req2))) \<noteq> 503"
    by (rule chat_ready_status)
qed

theorem chat_503_iff_not_ready_witness:
  "retriever (initial_globals :: (int, int) globals) = None
   \<and> chat (initial_globals :: (int, int) globals) zero_urandom demo_request =
       (initial_globals, [], Inl (HTTPException 503 ''Chatbot not initialized''))
   \<and> startup_event broken_env initial_globals =
       (Some (Exception ''The api_key client option must be set''),
        \<lparr>vectorstore = Some demo_store, retriever = Some (get_retriever demo_store), llm = None\<rparr>)
   \<and> fst (snd (chat \<lparr>vectorstore = Some demo_store, retriever = Some (get_retriever demo_store), llm = None\<rparr>
         zero_urandom demo_request)) = []
   \<and> startup_event demo_env initial_globals = (None, demo_globals)
   \<and> status (snd (snd (chat demo_globals zero_urandom demo_request))) \<noteq> 503"
  using chat_503_iff_not_ready [of "initial_globals :: (int, int) globals" zero_urandom demo_request
      broken_env "Exception ''The api_key client option must be set''"
      "\<lparr>vectorstore = Some demo_store, retriever = Some (get_retriever demo_store), llm = None\<rparr>"
      zero_urandom demo_request demo_env initial_globals demo_globals zero_urandom demo_request]
    demo_startup broken_startup
  by (simp add: initial_globals_def)

lemma chat_retrieval_fails:
  assumes "retriever g = Some r" "llm g = Some l" "invoke r (message req) = Inl e"
  shows "chat g rnd req =
     (g, [Retriever_invoke (message req)],
      Inl (HTTPException 500 (''Error processing your message: '' @ str_exn e)))"
  using assms by (simp add: chat_def chat_body_def)

lemma chat_generation_fails:
  assumes "retriever g = Some r" "llm g = Some l" "invoke r (message req) = Inr docs"
    "llm_invoke l (prompt_template (join (nl @ nl) (map page_content docs)) (message req)) = Inl e"
  shows "chat g rnd req =
     (g, [Retriever_invoke (message req),
          Llm_invoke (prompt_template (join (nl @ nl) (map page_content docs)) (message req))],
      Inl (HTTPException 500 (''Error processing your message: '' @ str_exn e)))"
  using assms by (simp add: chat_def chat_body_def Let_def)

lemma chat_succeeds:
  assumes "retriever g = Some r" "llm g = Some l" "invoke r (message req) = Inr docs"
    "llm_invoke l (prompt_template (join (nl @ nl) (map page_content docs)) (message req)) = Inr answer"
  shows "\<exists>tr cid. chat g rnd req = (g, tr, Inr (ChatResponse answer cid))"
  using assms by (simp add: chat_def chat_body_def Let_def split: option.splits list.splits)

text \<open>
  C2. With both handles set, a request whose retrieval raises, or whose generation raises
  after retrieval returned, is answered with the HTTP exception 500 whose detail is
  \<open>Error processing your message: \<close> followed by the message of the exception and
  nothing else; a request for which both return is answered with status 200 and the
  answer of the generation model as its message.
\<close>

theorem chat_failure_500_success_200:
  "(retriever g1 = Some r1 \<and> llm g1 = Some l1 \<and> invoke r1 (message req1) = Inl e1 \<longrightarrow>
      snd (snd (chat g1 rnd1 req1)) =
        Inl (HTTPException 500 (''Error processing your message: '' @ str_exn e1)))
   \<and> (retriever g2 = Some r2 \<and> llm g2 = Some l2 \<and> invoke r2 (message req2) = Inr docs2
       \<and> llm_invoke l2 (prompt_template (join (nl @ nl) (map page_content docs2)) (message req2)) = Inl e2 \<longrightarrow>
      snd (snd (chat g2 rnd2 req2)) =
        Inl (HTTPException 500 (''Error processing your message: '' @ str_exn e2)))
   \<and> (retriever g3 = Some r3 \<and> llm g3 = Some l3 \<and> invoke r3 (message req3) = Inr docs3
       \<and> llm_invoke l3 (prompt_template (join (nl @ nl) (map page_content docs3)) (message req3)) = Inr answer \<longrightarrow>
      status (snd (snd (chat g3 rnd3 req3))) = 200
      \<and> map_sum id reply_message (snd (snd (chat g3 rnd3 req3))) = Inr answer)"
proof (intro conjI impI)
  assume "retriever g1 = Some r1 \<and> llm g1 = Some l1 \<and> invoke r1 (message req1) = Inl e1"
  then show "snd (snd (chat g1 rnd1 req1)) =
      Inl (HTTPException 500 (''Error processing your message: '' @ str_exn e1))"
    by (simp add: chat_retrieval_fails)
next
  assume "retriever g2 = Some r2 \<and> llm g2 = Some l2 \<and> invoke r2 (message req2) = Inr docs2
       \<and> llm_invoke l2 (prompt_template (join (nl @ nl) (map page_content docs2)) (message req2)) = Inl e2"
  then show "snd (snd (chat g2 rnd2 req2)) =
      Inl (HTTPException 500 (''Error processing your message: '' @ str_exn e2))"
    by (simp add: chat_generation_fails)
next
  assume a: "retriever g3 = Some r3 \<and> llm g3 = Some l3 \<and> invoke r3 (message req3) = Inr docs3
       \<and> llm_invoke l3 (prompt_template (join (nl @ nl) (map page_content docs3)) (message req3)) = Inr answer"
  then obtain tr cid where c: "chat g3 rnd3 req3 = (g3, tr, Inr (ChatResponse answer cid))"
    using chat_succeeds [of g3 r3 l3 req3 docs3 answer rnd3] by blast
  show "status (snd (snd (chat g3 rnd3 req3))) = 200" by (simp add: c status_def)
  show "map_sum id reply_message (snd (snd (chat g3 rnd3 req3))) = Inr answer" by (simp add: c)
qed

lemma demo_docs_found:
  "invoke (get_retriever demo_store) (message demo_request) =
     Inr [\<lparr>page_content = ''ShareMatch is a trading platform for sports outcomes'', metadata = [(''page'', JInt 0)]\<rparr>,
          \<lparr>page_content = ''Fees are charged per trade.'', metadata = [(''page'', JInt 1)]\<rparr>]"
  by (simp add: invoke_def get_retriever_def similarity_search_def demo_store_def demo_request_def
      nearest_def demo_docs_def)

theorem chat_failure_500_success_200_witness:
  "invoke (get_retriever broken_store) (message demo_request) = Inl (Exception ''embedding model not loaded'')
   \<and> snd (snd (chat broken_store_globals zero_urandom demo_request)) =
       Inl (HTTPException 500 ''Error processing your message: embedding model not loaded'')
   \<and> llm_invoke broken_llm (prompt_template demo_context (message demo_request)) = Inl (Exception ''Connection error.'')
   \<and> snd (snd (chat broken_llm_globals zero_urandom demo_request)) =
       Inl (HTTPException 500 ''Error processing your message: Connection error.'')
   \<and> llm_invoke demo_llm (prompt_template demo_context (message demo_request)) = Inr ''ShareMatch is a trading platform.''
   \<and> status (snd (snd (chat demo_globals zero_urandom demo_request))) = 200
   \<and> map_sum id reply_message (snd (snd (chat demo_globals zero_urandom demo_request))) =
       Inr ''ShareMatch is a trading platform.''"
  using chat_failure_500_success_200 [of broken_store_globals "get_retriever broken_store" demo_llm
      demo_request "Exception ''embedding model not loaded'' " zero_urandom
      broken_llm_globals "get_retriever demo_store" broken_llm demo_request
      "[\<lparr>page_content = ''ShareMatch is a trading platform for sports outcomes'', metadata = [(''page'', JInt 0)]\<rparr>,
        \<lparr>page_content = ''Fees are charged per trade.'', metadata = [(''page'', JInt 1)]\<rparr>]"
      "Exception ''Connection error.''" zero_urandom
      demo_globals "get_retriever demo_store" demo_llm demo_request
      "[\<lparr>page_content = ''ShareMatch is a trading platform for sports outcomes'', metadata = [(''page'', JInt 0)]\<rparr>,
        \<lparr>page_content = ''Fees are charged per trade.'', metadata = [(''page'', JInt 1)]\<rparr>]"
      "''ShareMatch is a trading platform.''" zero_urandom]
    demo_docs_found
  by (simp add: broken_store_globals_def broken_llm_globals_def demo_globals_def demo_context_def
      broken_llm_def demo_llm_def invoke_def get_retriever_def similarity_search_def broken_store_def
      demo_store_def)

lemma hex_digit_inj:
  assumes "i < 16" "j < 16" "hex_digit i = hex_digit j"
  shows "i = j"
proof -
  have "distinct ''0123456789abcdef''" by simp
  moreover have "i < length ''0123456789abcdef''" "j < length ''0123456789abcdef''"
    using assms by simp_all
  ultimately show ?thesis
    using assms(3) unfolding hex_digit_def by (simp only: nth_eq_iff_index_eq)
qed

lemma hex_byte_inj:
  assumes "hex_byte a = hex_byte b"
  shows "a = b"
proof -
  have la: "unat a < 256" and lb: "unat b < 256"
    using unsigned_less [of a] unsigned_less [of b] by simp_all
  then have "unat a div 16 < 16" "unat b div 16 < 16" by simp_all
  moreover have "unat a mod 16 < 16" "unat b mod 16 < 16" by simp_all
  moreover have "hex_digit (unat a div 16) = hex_digit (unat b div 16)"
    "hex_digit (unat a mod 16) = hex_digit (unat b mod 16)"
    using assms by (simp_all add: hex_byte_def)
  ultimately have "unat a div 16 = unat b div 16" "unat a mod 16 = unat b mod 16"
    by (blast intro: hex_digit_inj)+
  then have "unat a = unat b"
    by (metis div_mult_mod_eq)
  then show ?thesis by (simp add: word_unat_eq_iff)
qed

lemma hex_Cons: "hex (b # bs) = hex_byte b @ hex bs"
  by (simp add: hex_def)

lemma length_hex: "length (hex bs) = 2 * length bs"
  by (induction bs) (simp_all add: hex_def hex_byte_def)

lemma hex_inj:
  assumes "length bs = length cs" "hex bs = hex cs"
  shows "bs = cs"
  using assms
proof (induction bs cs rule: list_induct2)
  case Nil
  then show ?case by simp
next
  case (Cons b bs c cs)
  have "length (hex_byte b) = length (hex_byte c)" by (simp add: hex_byte_def)
  with Cons.prems have "hex_byte b = hex_byte c" "hex bs = hex cs"
    by (simp_all add: hex_Cons)
  then show ?case using Cons.IH hex_byte_inj by simp
qed

lemma chat_globals_unchanged: "fst (chat g rnd req) = g"
  by (simp add: chat_def split: option.splits prod.splits sum.splits)

lemma chat_generated:
  assumes "chat g rnd req = (g', tr, Inr resp)" "conversation_id req = None \<or> conversation_id req = Some []"
  shows "reply_conversation_id resp = ''conv_'' @ hex (rnd 8) \<and> Os_urandom 8 \<in> set tr"
  using assms
  by (auto simp: chat_def chat_body_def Let_def split: option.splits prod.splits sum.splits list.splits)

lemma chat_echoed:
  assumes "chat g rnd req = (g', tr, Inr resp)" "conversation_id req = Some c" "c \<noteq> []"
  shows "reply_conversation_id resp = c \<and> Os_urandom 8 \<notin> set tr"
  using assms
  by (auto simp: chat_def chat_body_def Let_def split: option.splits prod.splits sum.splits list.splits)

lemma chat_without_id:
  assumes "retriever g = Some r" "llm g = Some l" "invoke r (message req) = Inr docs"
    "llm_invoke l (prompt_template (join (nl @ nl) (map page_content docs)) (message req)) = Inr answer"
    "conversation_id req = None"
  shows "chat g rnd req =
     (g, [Retriever_invoke (message req),
          Llm_invoke (prompt_template (join (nl @ nl) (map page_content docs)) (message req)),
          Os_urandom 8],
      Inr (ChatResponse answer (''conv_'' @ hex (rnd 8))))"
  using assms by (simp add: chat_def chat_body_def Let_def)

lemma token_eq_iff:
  assumes "length bs = 8" "length cs = 8"
  shows "(''conv_'' @ hex bs = ''conv_'' @ hex cs) = (bs = cs)"
  using assms hex_inj [of bs cs] by auto

text \<open>
  C5, as the code has it. A request that succeeds and carries a conversation id that is
  not the empty string gets that id back unchanged, and \<open>os.urandom\<close> is not called. A
  request without an id, for which retrieval and generation return, succeeds, calls
  \<open>os.urandom(8)\<close> once and carries \<open>conv_\<close> followed by the 16 hexadecimal digits of the 8
  bytes drawn. A request that succeeds with no id or with the empty string as id carries
  such a generated token, and the tokens of two such requests are equal exactly when the
  bytes drawn for them are equal. In every case the globals after the request are the
  globals before it.
\<close>

theorem chat_conversation_id:
  "(chat g1 rnd1 req1 = (g1', tr1, Inr resp1) \<and> conversation_id req1 = Some c \<and> c \<noteq> [] \<longrightarrow>
      reply_conversation_id resp1 = c \<and> Os_urandom 8 \<notin> set tr1 \<and> g1' = g1)
   \<and> (retriever g2 = Some r2 \<and> llm g2 = Some l2 \<and> invoke r2 (message req2) = Inr docs2
       \<and> llm_invoke l2 (prompt_template (join (nl @ nl) (map page_content docs2)) (message req2)) = Inr answer2
       \<and> conversation_id req2 = None \<longrightarrow>
      chat g2 rnd2 req2 =
        (g2, [Retriever_invoke (message req2),
              Llm_invoke (prompt_template (join (nl @ nl) (map page_content docs2)) (message req2)),
              Os_urandom 8],
         Inr (ChatResponse answer2 (''conv_'' @ hex (rnd2 8)))))
   \<and> (chat g3 rnd3 req3 = (g3', tr3, Inr resp3)
       \<and> (conversation_id req3 = None \<or> conversation_id req3 = Some []) \<longrightarrow>
      reply_conversation_id resp3 = ''conv_'' @ hex (rnd3 8) \<and> Os_urandom 8 \<in> set tr3 \<and> g3' = g3)
   \<and> (chat g4 rnd4 req4 = (g4', tr4, Inr resp4)
       \<and> (conversation_id req4 = None \<or> conversation_id req4 = Some [])
       \<and> chat g5 rnd5 req5 = (g5', tr5, Inr resp5)
       \<and> (conversation_id req5 = None \<or> conversation_id req5 = Some [])
       \<and> length (rnd4 8) = 8 \<and> length (rnd5 8) = 8 \<longrightarrow>
      (reply_conversation_id resp4 = reply_conversation_id resp5) = (rnd4 8 = rnd5 8))"
proof (intro conjI impI)
  assume a: "chat g1 rnd1 req1 = (g1', tr1, Inr resp1) \<and> conversation_id req1 = Some c \<and> c \<noteq> []"
  then show "reply_conversation_id resp1 = c" "Os_urandom 8 \<notin> set tr1"
    using chat_echoed [of g1 rnd1 req1 g1' tr1 resp1 c] by simp_all
  show "g1' = g1" using a chat_globals_unchanged [of g1 rnd1 req1] by simp
next
  assume "retriever g2 = Some r2 \<and> llm g2 = Some l2 \<and> invoke r2 (message req2) = Inr docs2
       \<and> llm_invoke l2 (prompt_template (join (nl @ nl) (map page_content docs2)) (message req2)) = Inr answer2
       \<and> conversation_id req2 = None"
  then show "chat g2 rnd2 req2 =
        (g2, [Retriever_invoke (message req2),
              Llm_invoke (prompt_template (join (nl @ nl) (map page_content docs2)) (message req2)),
              Os_urandom 8],
         Inr (ChatResponse answer2 (''conv_'' @ hex (rnd2 8))))"
    by (simp add: chat_without_id)
next
  assume a: "chat g3 rnd3 req3 = (g3', tr3, Inr resp3)
       \<and> (conversation_id req3 = None \<or> conversation_id req3 = Some [])"
  then show "reply_conversation_id resp3 = ''conv_'' @ hex (rnd3 8)" "Os_urandom 8 \<in> set tr3"
    using chat_generated [of g3 rnd3 req3 g3' tr3 resp3] by simp_all
  show "g3' = g3" using a chat_globals_unchanged [of g3 rnd3 req3] by simp
next
  assume a: "chat g4 rnd4 req4 = (g4', tr4, Inr resp4)
       \<and> (conversation_id req4 = None \<or> conversation_id req4 = Some [])
       \<and> chat g5 rnd5 req5 = (g5', tr5, Inr resp5)
       \<and> (conversation_id req5 = None \<or> conversation_id req5 = Some [])
       \<and> length (rnd4 8) = 8 \<and> length (rnd5 8) = 8"
  then have "reply_conversation_id resp4 = ''conv_'' @ hex (rnd4 8)"
    "reply_conversation_id resp5 = ''conv_'' @ hex (rnd5 8)"
    using chat_generated [of g4 rnd4 req4 g4' tr4 resp4] chat_generated [of g5 rnd5 req5 g5' tr5 resp5]
    by simp_all
  then show "(reply_conversation_id resp4 = reply_conversation_id resp5) = (rnd4 8 = rnd5 8)"
    using a token_eq_iff [of "rnd4 8" "rnd5 8"] by simp
qed

lemma demo_chat_given:
  "chat demo_globals zero_urandom given_id_request =
     (demo_globals,
      [Retriever_invoke ''What is ShareMatch?'',
       Llm_invoke (prompt_template demo_context ''What is ShareMatch?'')],
      Inr (ChatResponse ''ShareMatch is a trading platform.'' ''conv_42''))"
  by (simp add: chat_def chat_body_def demo_globals_def given_id_request_def demo_llm_def Let_def
      invoke_def get_retriever_def similarity_search_def demo_store_def nearest_def demo_docs_def
      demo_context_def)

lemma demo_chat_empty:
  "chat demo_globals zero_urandom empty_id_request =
     (demo_globals,
      [Retriever_invoke ''What is ShareMatch?'',
       Llm_invoke (prompt_template demo_context ''What is ShareMatch?''), Os_urandom 8],
      Inr (ChatResponse ''ShareMatch is a trading platform.'' (''conv_'' @ hex (zero_urandom 8))))"
  by (simp add: chat_def chat_body_def demo_globals_def empty_id_request_def demo_llm_def Let_def
      invoke_def get_retriever_def similarity_search_def demo_store_def nearest_def demo_docs_def
      demo_context_def)

lemma replicate_8: "replicate 8 x = [x, x, x, x, x, x, x, x]"
  by (simp add: eval_nat_numeral)

lemma hex_zero: "hex (zero_urandom 8) = ''0000000000000000''"
  by (simp add: zero_urandom_def replicate_8 hex_def hex_byte_def hex_digit_def)

lemma fees_docs_found:
  "invoke (get_retriever demo_store) (message fees_request) =
     Inr [\<lparr>page_content = ''ShareMatch is a trading platform for sports outcomes'', metadata = [(''page'', JInt 0)]\<rparr>,
          \<lparr>page_content = ''Fees are charged per trade.'', metadata = [(''page'', JInt 1)]\<rparr>]"
  by (simp add: invoke_def get_retriever_def similarity_search_def demo_store_def fees_request_def
      nearest_def demo_docs_def)

lemma hex_ff: "hex (ff_urandom 8) = ''ffffffffffffffff''"
  by (simp add: ff_urandom_def replicate_8 hex_def hex_byte_def hex_digit_def)

lemma demo_chat_none:
  "chat demo_globals rnd demo_request =
     (demo_globals,
      [Retriever_invoke ''What is ShareMatch?'',
       Llm_invoke (prompt_template demo_context ''What is ShareMatch?''), Os_urandom 8],
      Inr (ChatResponse ''ShareMatch is a trading platform.'' (''conv_'' @ hex (rnd 8))))"
  by (simp add: chat_def chat_body_def demo_globals_def demo_request_def demo_llm_def Let_def
      invoke_def get_retriever_def similarity_search_def demo_store_def nearest_def demo_docs_def
      demo_context_def)

lemma demo_chat_fees:
  "chat demo_globals rnd fees_request =
     (demo_globals,
      [Retriever_invoke ''How do fees work?'',
       Llm_invoke (prompt_template demo_context ''How do fees work?''), Os_urandom 8],
      Inr (ChatResponse ''ShareMatch is a trading platform.'' (''conv_'' @ hex (rnd 8))))"
  by (simp add: chat_def chat_body_def demo_globals_def fees_request_def demo_llm_def Let_def
      invoke_def get_retriever_def similarity_search_def demo_store_def nearest_def demo_docs_def
      demo_context_def)

theorem chat_conversation_id_witness:
  "chat demo_globals zero_urandom given_id_request =
     (demo_globals,
      [Retriever_invoke ''What is ShareMatch?'',
       Llm_invoke (prompt_template demo_context ''What is ShareMatch?'')],
      Inr (ChatResponse ''ShareMatch is a trading platform.'' ''conv_42''))
   \<and> conversation_id given_id_request = Some ''conv_42''
   \<and> conversation_id demo_request = None
   \<and> chat demo_globals ff_urandom demo_request =
       (demo_globals,
        [Retriever_invoke ''What is ShareMatch?'',
         Llm_invoke (prompt_template demo_context ''What is ShareMatch?''), Os_urandom 8],
        Inr (ChatResponse ''ShareMatch is a trading platform.'' ''conv_ffffffffffffffff''))
   \<and> conversation_id empty_id_request = Some []
   \<and> chat demo_globals zero_urandom empty_id_request =
       (demo_globals,
        [Retriever_invoke ''What is ShareMatch?'',
         Llm_invoke (prompt_template demo_context ''What is ShareMatch?''), Os_urandom 8],
        Inr (ChatResponse ''ShareMatch is a trading platform.'' ''conv_0000000000000000''))
   \<and> conversation_id fees_request = None
   \<and> length (zero_urandom 8) = 8 \<and> length (ff_urandom 8) = 8
   \<and> zero_urandom 8 \<noteq> ff_urandom 8
   \<and> reply_conversation_id
        (ChatResponse ''ShareMatch is a trading platform.'' (''conv_'' @ hex (zero_urandom 8))) \<noteq>
       reply_conversation_id
        (ChatResponse ''ShareMatch is a trading platform.'' (''conv_'' @ hex (ff_urandom 8)))"
  using chat_conversation_id [where ?g1.0 = demo_globals and ?rnd1.0 = zero_urandom
      and ?req1.0 = given_id_request and ?g1' = demo_globals
      and ?tr1.0 = "[Retriever_invoke ''What is ShareMatch?'',
        Llm_invoke (prompt_template demo_context ''What is ShareMatch?'')]"
      and ?resp1.0 = "ChatResponse ''ShareMatch is a trading platform.'' ''conv_42''"
      and c = "''conv_42''"
      and ?g2.0 = demo_globals and ?r2.0 = "get_retriever demo_store" and ?l2.0 = demo_llm
      and ?req2.0 = demo_request
      and ?docs2.0 = "[\<lparr>page_content = ''ShareMatch is a trading platform for sports outcomes'', metadata = [(''page'', JInt 0)]\<rparr>,
        \<lparr>page_content = ''Fees are charged per trade.'', metadata = [(''page'', JInt 1)]\<rparr>]"
      and ?answer2.0 = "''ShareMatch is a trading platform.''" and ?rnd2.0 = ff_urandom
      and ?g3.0 = demo_globals and ?rnd3.0 = zero_urandom and ?req3.0 = empty_id_request
      and ?g3' = demo_globals
      and ?tr3.0 = "[Retriever_invoke ''What is ShareMatch?'',
        Llm_invoke (prompt_template demo_context ''What is ShareMatch?''), Os_urandom 8]"
      and ?resp3.0 = "ChatResponse ''ShareMatch is a trading platform.'' (''conv_'' @ hex (zero_urandom 8))"
      and ?g4.0 = demo_globals and ?rnd4.0 = zero_urandom and ?req4.0 = demo_request
      and ?g4' = demo_globals
      and ?tr4.0 = "[Retriever_invoke ''What is ShareMatch?'',
        Llm_invoke (prompt_template demo_context ''What is ShareMatch?''), Os_urandom 8]"
      and ?resp4.0 = "ChatResponse ''ShareMatch is a trading platform.'' (''conv_'' @ hex (zero_urandom 8))"
      and ?g5.0 = demo_globals and ?rnd5.0 = ff_urandom and ?req5.0 = fees_request
      and ?g5' = demo_globals
      and ?tr5.0 = "[Retriever_invoke ''How do fees work?'',
        Llm_invoke (prompt_template demo_context ''How do fees work?''), Os_urandom 8]"
      and ?resp5.0 = "ChatResponse ''ShareMatch is a trading platform.'' (''conv_'' @ hex (ff_urandom 8))"]
    demo_chat_given demo_chat_empty demo_chat_none [of zero_urandom] demo_chat_fees [of ff_urandom]
    demo_docs_found hex_zero hex_ff
  by (simp add: given_id_request_def empty_id_request_def demo_request_def fees_request_def
      demo_globals_def demo_llm_def demo_context_def zero_urandom_def ff_urandom_def)

text \<open>
  C5 as stated fails in two ways. A request whose conversation id is the empty string
  contains an id, and the response carries a generated one. And the generated token is
  not unique: two different requests without an id, for which \<open>os.urandom\<close> returns the same
  8 bytes, carry the same token, since nothing compares a token with the ones given out
  before.
\<close>

theorem chat_conversation_id_counterexample:
  "conversation_id empty_id_request = Some ''''
   \<and> snd (snd (chat demo_globals zero_urandom empty_id_request)) =
       Inr (ChatResponse ''ShareMatch is a trading platform.'' ''conv_0000000000000000'')
   \<and> conversation_id demo_request = None \<and> conversation_id fees_request = None
   \<and> message demo_request \<noteq> message fees_request
   \<and> snd (snd (chat demo_globals zero_urandom demo_request)) =
       Inr (ChatResponse ''ShareMatch is a trading platform.'' ''conv_0000000000000000'')
   \<and> snd (snd (chat demo_globals zero_urandom fees_request)) =
       Inr (ChatResponse ''ShareMatch is a trading platform.'' ''conv_0000000000000000'')"
proof (intro conjI)
  show "conversation_id empty_id_request = Some ''''"
    by (simp add: empty_id_request_def)
  show "snd (snd (chat demo_globals zero_urandom empty_id_request)) =
       Inr (ChatResponse ''ShareMatch is a trading platform.'' ''conv_0000000000000000'')"
    by (simp add: demo_chat_empty hex_zero)
  show "conversation_id demo_request = None" by (simp add: demo_request_def)
  show "conversation_id fees_request = None" by (simp add: fees_request_def)
  show "message demo_request \<noteq> message fees_request"
    by (simp add: demo_request_def fees_request_def)
  show "snd (snd (chat demo_globals zero_urandom demo_request)) =
       Inr (ChatResponse ''ShareMatch is a trading platform.'' ''conv_0000000000000000'')"
    by (simp add: demo_chat_none hex_zero)
  show "snd (snd (chat demo_globals zero_urandom fees_request)) =
       Inr (ChatResponse ''ShareMatch is a trading platform.'' ''conv_0000000000000000'')"
    by (simp add: demo_chat_fees hex_zero)
qed

section \<open>Properties of the retriever and of the cloud store\<close>

lemma remote_call_no_faults: "faults w = [] \<Longrightarrow> remote_call w = (None, w)"
  by (simp add: remote_call_def)








lemma client_preserves_name:
  assumes "get_chroma_cloud_client w = (r, w')"
  shows "CHROMA_COLLECTION w' = CHROMA_COLLECTION w"
  using assms
  by (auto simp: get_chroma_cloud_client_def remote_call_def
      split: prod.splits option.splits list.splits)









lemma count_no_key:
  assumes "CHROMA_API_KEY w = None \<or> CHROMA_API_KEY w = Some []"
  shows "get_collection_count w = (0, w)"
  using assms by (auto simp: get_collection_count_def get_chroma_cloud_client_def)

lemma count_no_faults:
  assumes "faults w = []" "CHROMA_API_KEY w = Some (c # cs)"
  shows "fst (get_collection_count w) = length (stored w)"
  using assms
  by (auto simp: get_collection_count_def get_chroma_cloud_client_def get_or_create_collection_def
      client_get_or_create_collection_def collection_count_def remote_call_def stored_def
      split: option.splits)









lemma count_fault:
  assumes "Some m \<in> set (take 3 (faults w))"
  shows "fst (get_collection_count w) = 0"
proof -
  from assms consider fs where "faults w = Some m # fs"
    | f0 fs where "faults w = f0 # Some m # fs"
    | f0 f1 fs where "faults w = f0 # f1 # Some m # fs"
    by (cases "faults w"; simp; rename_tac f0 fs0; case_tac fs0; simp; rename_tac f1 fs1; case_tac fs1; auto)
  then show ?thesis
    by cases
      (auto simp: get_collection_count_def get_chroma_cloud_client_def get_or_create_collection_def
        client_get_or_create_collection_def collection_count_def remote_call_def
        split: option.splits list.splits prod.splits sum.splits)
qed

text \<open>
  C10. \<open>get_collection_count\<close> returns a number in every case. Without an API key, when
  the client cannot be built, it returns 0; when the service fails the building of the
  client, the fetching of the collection or the count, it returns 0; when every call is
  answered it returns the number of entries of the collection, which is 0 for an empty one.
\<close>

theorem count_never_raises:
  "(CHROMA_API_KEY w = None \<or> CHROMA_API_KEY w = Some [] \<longrightarrow> get_collection_count w = (0, w))
   \<and> (Some m \<in> set (take 3 (faults w1)) \<longrightarrow> fst (get_collection_count w1) = 0)
   \<and> (faults w2 = [] \<and> CHROMA_API_KEY w2 = Some (k # ks) \<longrightarrow>
        fst (get_collection_count w2) = length (stored w2))"
proof (intro conjI impI)
  assume "CHROMA_API_KEY w = None \<or> CHROMA_API_KEY w = Some []"
  then show "get_collection_count w = (0, w)" by (rule count_no_key)
next
  assume "Some m \<in> set (take 3 (faults w1))"
  then show "fst (get_collection_count w1) = 0" by (rule count_fault)
next
  assume "faults w2 = [] \<and> CHROMA_API_KEY w2 = Some (k # ks)"
  then show "fst (get_collection_count w2) = length (stored w2)"
    using count_no_faults [of w2 k ks] by simp
qed

lemma take_3: "take 3 (x # xs) = x # take 2 xs" "take 2 (x # xs) = x # take 1 xs"
  by (simp_all add: eval_nat_numeral)

theorem count_never_raises_witness:
  "CHROMA_API_KEY no_key_cloud = None \<and> stored no_key_cloud = demo_entries
   \<and> get_collection_count no_key_cloud = (0, no_key_cloud)
   \<and> faults refused_cloud = [Some ''Connection refused'']
   \<and> fst (get_collection_count refused_cloud) = 0
   \<and> faults unreachable_cloud = [None, Some ''Collection unavailable'']
   \<and> fst (get_collection_count unreachable_cloud) = 0
   \<and> faults count_fails_cloud = [None, None, Some ''Read timed out'']
   \<and> fst (get_collection_count count_fails_cloud) = 0
   \<and> faults demo_cloud = [] \<and> fst (get_collection_count demo_cloud) = 5
   \<and> faults cleared_cloud = [] \<and> fst (get_collection_count cleared_cloud) = 0"
  using count_never_raises [of no_key_cloud "''Connection refused''" refused_cloud demo_cloud "CHR ''c''" "''k-1''"]
    count_never_raises [of no_key_cloud "''Collection unavailable''" unreachable_cloud cleared_cloud "CHR ''c''" "''k-1''"]
    count_never_raises [of no_key_cloud "''Read timed out''" count_fails_cloud cleared_cloud "CHR ''c''" "''k-1''"]
  by (simp add: no_key_cloud_def refused_cloud_def unreachable_cloud_def count_fails_cloud_def
      cleared_cloud_def demo_cloud_def stored_def demo_entries_def take_3)






















section \<open>Properties of the seeding workflow\<close>

lemma embedding_calls_append: "embedding_calls (xs @ ys) = embedding_calls xs @ embedding_calls ys"
  by (induction xs rule: embedding_calls.induct) simp_all

lemma errors_printed_append: "errors_printed (xs @ ys) = errors_printed xs @ errors_printed ys"
  by (induction xs rule: errors_printed.induct) simp_all

lemma process_chunk_ok:
  assumes "chunk_ok w i chunk"
  shows "\<exists>e. generate_embedding (hf_post w i) (page_content chunk) = Inr e
     \<and> process_chunk w i chunk s =
         s\<lparr>table_rows := table_rows s @ [chunk_row i chunk e], success_count := success_count s + 1,
           seed_trace := seed_trace s @ [Embedding_call i, Insert_call i, Sleep_ms 500]\<rparr>"
  using assms
  by (auto simp: chunk_ok_def process_chunk_def insert_to_supabase_def Let_def split: sum.splits)

lemma process_chunk_failed:
  assumes "\<not> chunk_ok w i chunk"
  shows "\<exists>m. table_rows (process_chunk w i chunk s) = table_rows s
     \<and> success_count (process_chunk w i chunk s) = success_count s
     \<and> (seed_trace (process_chunk w i chunk s) = seed_trace s @ [Embedding_call i, Error_printed m]
        \<or> seed_trace (process_chunk w i chunk s) =
             seed_trace s @ [Embedding_call i, Insert_call i, Error_printed m])"
  using assms
  by (auto simp: chunk_ok_def process_chunk_def insert_to_supabase_def Let_def split: sum.splits)

lemma seed_loop_success_count:
  "success_count (seed_loop w i chunks s) = success_count s + count_ok w i chunks"
proof (induction chunks arbitrary: i s)
  case Nil
  then show ?case by simp
next
  case (Cons c cs)
  show ?case
  proof (cases "chunk_ok w i c")
    case True
    from process_chunk_ok [OF True, of s] show ?thesis by (auto simp: Cons.IH True)
  next
    case False
    from process_chunk_failed [OF False, of s] show ?thesis by (auto simp: Cons.IH False)
  qed
qed

lemma seed_loop_table_rows:
  "table_rows (seed_loop w i chunks s) = table_rows s @ rows_of w i chunks"
proof (induction chunks arbitrary: i s)
  case Nil
  then show ?case by simp
next
  case (Cons c cs)
  show ?case
  proof (cases "chunk_ok w i c")
    case True
    from process_chunk_ok [OF True, of s] show ?thesis by (auto simp: Cons.IH True)
  next
    case False
    from process_chunk_failed [OF False, of s] show ?thesis
      by (auto simp: Cons.IH False split: sum.splits)
  qed
qed

lemma upt_step: "[i..<Suc (i + n)] = i # [Suc i..<Suc (i + n)]"
  by (simp add: upt_rec [of i])

lemma seed_loop_embedding_calls:
  "embedding_calls (seed_trace (seed_loop w i chunks s)) =
     embedding_calls (seed_trace s) @ [i..<i + length chunks]"
proof (induction chunks arbitrary: i s)
  case Nil
  then show ?case by simp
next
  case (Cons c cs)
  show ?case
  proof (cases "chunk_ok w i c")
    case True
    from process_chunk_ok [OF True, of s] show ?thesis
      by (auto simp: Cons.IH embedding_calls_append upt_step [symmetric] simp del: upt_Suc)
  next
    case False
    from process_chunk_failed [OF False, of s] show ?thesis
      by (auto simp: Cons.IH embedding_calls_append upt_step [symmetric] simp del: upt_Suc)
  qed
qed

lemma seed_loop_errors_printed:
  "length (errors_printed (seed_trace (seed_loop w i chunks s))) + count_ok w i chunks =
     length (errors_printed (seed_trace s)) + length chunks"
proof (induction chunks arbitrary: i s)
  case Nil
  then show ?case by simp
next
  case (Cons c cs)
  show ?case
  proof (cases "chunk_ok w i c")
    case True
    from process_chunk_ok [OF True, of s] obtain e where
      "process_chunk w i c s =
         s\<lparr>table_rows := table_rows s @ [chunk_row i c e], success_count := success_count s + 1,
           seed_trace := seed_trace s @ [Embedding_call i, Insert_call i, Sleep_ms 500]\<rparr>"
      by auto
    then show ?thesis
      using Cons.IH [of "Suc i" "process_chunk w i c s"] True
      by (simp add: errors_printed_append)
  next
    case False
    from process_chunk_failed [OF False, of s] obtain m where
      "seed_trace (process_chunk w i c s) = seed_trace s @ [Embedding_call i, Error_printed m]
        \<or> seed_trace (process_chunk w i c s) =
             seed_trace s @ [Embedding_call i, Insert_call i, Error_printed m]"
      by auto
    then show ?thesis
      using Cons.IH [of "Suc i" "process_chunk w i c s"] False
      by (auto simp: errors_printed_append)
  qed
qed

lemma upt_0_Suc: "[0..<Suc n] = 0 # map Suc [0..<n]"
  by (simp add: upt_conv_Cons map_Suc_upt del: upt_Suc)

lemma count_ok_indices:
  "count_ok w i chunks = length (filter (\<lambda>j. chunk_ok w (i + j) (chunks ! j)) [0..<length chunks])"
proof (induction chunks arbitrary: i)
  case Nil
  then show ?case by simp
next
  case (Cons c cs)
  show ?case
    by (simp add: Cons.IH [of "Suc i"] upt_0_Suc filter_map comp_def del: upt_Suc)
qed

lemma rows_of_indices:
  "rows_of w i chunks =
     map (\<lambda>j. chunk_row (i + j) (chunks ! j)
                (projr (generate_embedding (hf_post w (i + j)) (page_content (chunks ! j)))))
       (filter (\<lambda>j. chunk_ok w (i + j) (chunks ! j)) [0..<length chunks])"
proof (induction chunks arbitrary: i)
  case Nil
  then show ?case by simp
next
  case (Cons c cs)
  show ?case
    by (auto simp: Cons.IH [of "Suc i"] upt_0_Suc filter_map comp_def chunk_ok_def
        simp del: upt_Suc split: sum.splits)
qed

lemma count_ok_ok_indices: "count_ok w 0 chunks = length (ok_indices w chunks)"
  by (simp add: count_ok_indices ok_indices_def)

lemma rows_of_ok_indices:
  "rows_of w 0 chunks = map (\<lambda>j. chunk_row j (chunks ! j) (embedding_of w chunks j)) (ok_indices w chunks)"
  by (simp add: rows_of_indices ok_indices_def embedding_of_def)

lemma upt_10: "[0..<10] = [0, 1, 2, 3, 4, 5, 6, 7, 8, 9 :: nat]"
  by (simp add: upt_rec)

lemma ok_indices_fifth_fails:
  assumes "length chunks = 10"
    "generate_embedding (hf_post w 4) (page_content (chunks ! 4)) = Inl e"
    "\<forall>j<10. j \<noteq> 4 \<longrightarrow> chunk_ok w j (chunks ! j)"
  shows "ok_indices w chunks = [0, 1, 2, 3, 5, 6, 7, 8, 9]"
proof -
  have "\<not> chunk_ok w 4 (chunks ! 4)" using assms(2) by (simp add: chunk_ok_def)
  then show ?thesis using assms(1,3) by (simp add: ok_indices_def upt_10)
qed

lemma main_report:
  assumes "clear_existing_embeddings (supabase_delete w) rows = (None, rows')"
  shows "fst (main w (Inr chunks) rows) = Inr (length (ok_indices w chunks), length chunks)"
    "table_rows (snd (main w (Inr chunks) rows)) =
       rows' @ map (\<lambda>j. chunk_row j (chunks ! j) (embedding_of w chunks j)) (ok_indices w chunks)"
    "embedding_calls (seed_trace (snd (main w (Inr chunks) rows))) = [0..<length chunks]"
    "length (errors_printed (seed_trace (snd (main w (Inr chunks) rows)))) =
       length chunks - length (ok_indices w chunks)"
proof -
  let ?s0 = "\<lparr>table_rows = rows', success_count = 0, seed_trace = []\<rparr>"
  have m: "main w (Inr chunks) rows =
      (Inr (success_count (seed_loop w 0 chunks ?s0), length chunks), seed_loop w 0 chunks ?s0)"
    using assms by (simp add: main_def Let_def)
  show "fst (main w (Inr chunks) rows) = Inr (length (ok_indices w chunks), length chunks)"
    by (simp add: m seed_loop_success_count count_ok_ok_indices)
  show "table_rows (snd (main w (Inr chunks) rows)) =
       rows' @ map (\<lambda>j. chunk_row j (chunks ! j) (embedding_of w chunks j)) (ok_indices w chunks)"
    by (simp add: m seed_loop_table_rows rows_of_ok_indices)
  show "embedding_calls (seed_trace (snd (main w (Inr chunks) rows))) = [0..<length chunks]"
    by (simp add: m seed_loop_embedding_calls)
  show "length (errors_printed (seed_trace (snd (main w (Inr chunks) rows)))) =
       length chunks - length (ok_indices w chunks)"
    using seed_loop_errors_printed [of w 0 chunks ?s0]
    by (simp add: m count_ok_ok_indices)
qed

text \<open>
  C7. Whatever the services answer for the single chunks, once the table was cleared the
  loop of \<open>main\<close> runs to its end: it makes the embedding call of every chunk, in order,
  prints one error for each chunk that does not go through, inserts the rows of exactly the
  chunks that go through, and reports their number over the number of chunks. For 10
  chunks of which only the fifth fails, in its embedding call, the report is 9 over 10
  and the rows of the nine others are in the table.
\<close>

theorem seeding_skips_failed_chunks:
  "(clear_existing_embeddings (supabase_delete w) rows = (None, rows') \<longrightarrow>
      fst (main w (Inr chunks) rows) = Inr (length (ok_indices w chunks), length chunks)
      \<and> table_rows (snd (main w (Inr chunks) rows)) =
          rows' @ map (\<lambda>j. chunk_row j (chunks ! j) (embedding_of w chunks j)) (ok_indices w chunks)
      \<and> embedding_calls (seed_trace (snd (main w (Inr chunks) rows))) = [0..<length chunks]
      \<and> length (errors_printed (seed_trace (snd (main w (Inr chunks) rows)))) =
          length chunks - length (ok_indices w chunks))
   \<and> (clear_existing_embeddings (supabase_delete w1) rows1 = (None, rows1') \<and> length chunks1 = 10
       \<and> generate_embedding (hf_post w1 4) (page_content (chunks1 ! 4)) = Inl e
       \<and> (\<forall>j<10. j \<noteq> 4 \<longrightarrow> chunk_ok w1 j (chunks1 ! j)) \<longrightarrow>
      fst (main w1 (Inr chunks1) rows1) = Inr (9, 10)
      \<and> table_rows (snd (main w1 (Inr chunks1) rows1)) =
          rows1' @ map (\<lambda>j. chunk_row j (chunks1 ! j) (embedding_of w1 chunks1 j))
                     [0, 1, 2, 3, 5, 6, 7, 8, 9])"
proof (intro conjI impI)
  assume a: "clear_existing_embeddings (supabase_delete w) rows = (None, rows')"
  show "fst (main w (Inr chunks) rows) = Inr (length (ok_indices w chunks), length chunks)"
    using a by (rule main_report(1))
  show "table_rows (snd (main w (Inr chunks) rows)) =
          rows' @ map (\<lambda>j. chunk_row j (chunks ! j) (embedding_of w chunks j)) (ok_indices w chunks)"
    using a by (rule main_report(2))
  show "embedding_calls (seed_trace (snd (main w (Inr chunks) rows))) = [0..<length chunks]"
    using a by (rule main_report(3))
  show "length (errors_printed (seed_trace (snd (main w (Inr chunks) rows)))) =
          length chunks - length (ok_indices w chunks)"
    using a by (rule main_report(4))
next
  assume a: "clear_existing_embeddings (supabase_delete w1) rows1 = (None, rows1') \<and> length chunks1 = 10
       \<and> generate_embedding (hf_post w1 4) (page_content (chunks1 ! 4)) = Inl e
       \<and> (\<forall>j<10. j \<noteq> 4 \<longrightarrow> chunk_ok w1 j (chunks1 ! j))"
  then have i: "ok_indices w1 chunks1 = [0, 1, 2, 3, 5, 6, 7, 8, 9]"
    using ok_indices_fifth_fails [of chunks1 w1 e] by simp
  show "fst (main w1 (Inr chunks1) rows1) = Inr (9, 10)"
    using a main_report(1) [of w1 rows1 rows1' chunks1] by (simp add: i)
  show "table_rows (snd (main w1 (Inr chunks1) rows1)) =
          rows1' @ map (\<lambda>j. chunk_row j (chunks1 ! j) (embedding_of w1 chunks1 j))
                     [0, 1, 2, 3, 5, 6, 7, 8, 9]"
    using a main_report(2) [of w1 rows1 rows1' chunks1] by (simp only: i)
qed

lemma fails_at_ok: "i \<noteq> k \<Longrightarrow> chunk_ok (fails_at k) i chunk"
  by (simp add: chunk_ok_def fails_at_def generate_embedding_def)

lemma fails_at_failed:
  "generate_embedding (hf_post (fails_at k) k) content = Inl (Exception ''Embedding API error: Model is loading'')"
  by (simp add: fails_at_def generate_embedding_def)

lemma fails_at_clear: "clear_existing_embeddings (supabase_delete (fails_at k)) rows = (None, [])"
  by (simp add: fails_at_def clear_existing_embeddings_def)

lemma ten_chunks_ok_indices: "ok_indices (fails_at 4) ten_chunks = [0, 1, 2, 3, 5, 6, 7, 8, 9]"
  using ok_indices_fifth_fails [of ten_chunks "fails_at 4" "Exception ''Embedding API error: Model is loading''"]
  by (simp add: fails_at_failed fails_at_ok) (simp add: ten_chunks_def)

lemma ten_chunks_contents:
  "map (\<lambda>j. row_content (chunk_row j (ten_chunks ! j) (embedding_of (fails_at 4) ten_chunks j)))
     [0, 1, 2, 3, 5, 6, 7, 8, 9] =
   [''Question 0'', ''Question 1'', ''Question 2'', ''Question 3'', ''Question 5'',
    ''Question 6'', ''Question 7'', ''Question 8'', ''Question 9'']"
  by (simp add: chunk_row_def ten_chunks_def faq_chunk_def digit_def)

theorem seeding_skips_failed_chunks_witness:
  "clear_existing_embeddings (supabase_delete (fails_at 4)) [stale_row] = (None, [])
   \<and> length ten_chunks = 10
   \<and> generate_embedding (hf_post (fails_at 4) 4) (page_content (ten_chunks ! 4)) =
       Inl (Exception ''Embedding API error: Model is loading'')
   \<and> fst (main (fails_at 4) (Inr ten_chunks) [stale_row]) = Inr (9, 10)
   \<and> map row_content (table_rows (snd (main (fails_at 4) (Inr ten_chunks) [stale_row]))) =
       [''Question 0'', ''Question 1'', ''Question 2'', ''Question 3'', ''Question 5'',
        ''Question 6'', ''Question 7'', ''Question 8'', ''Question 9'']
   \<and> embedding_calls (seed_trace (snd (main (fails_at 4) (Inr ten_chunks) [stale_row]))) =
       [0, 1, 2, 3, 4, 5, 6, 7, 8, 9]
   \<and> length (errors_printed (seed_trace (snd (main (fails_at 4) (Inr ten_chunks) [stale_row])))) = 1"
  using seeding_skips_failed_chunks [of "fails_at 4" "[stale_row]" "[]" ten_chunks
      "fails_at 4" "[stale_row]" "[]" ten_chunks "Exception ''Embedding API error: Model is loading''"]
    fails_at_clear [of 4 "[stale_row]"] fails_at_failed [of 4 "page_content (ten_chunks ! 4)"]
    ten_chunks_ok_indices ten_chunks_contents upt_10
  by (simp add: fails_at_ok comp_def) (simp add: ten_chunks_def)

lemma two_chunks_run:
  "main (fails_at 0) (Inr two_chunks) [] =
     (Inr (1, 2),
      \<lparr>table_rows = [chunk_row 1 (faq_chunk 1) 10], success_count = 1,
       seed_trace = [Embedding_call 0, Error_printed ''Embedding API error: Model is loading'',
                     Embedding_call 1, Insert_call 1, Sleep_ms 500]\<rparr>)"
  by (simp add: main_def clear_existing_embeddings_def fails_at_def two_chunks_def process_chunk_def
      generate_embedding_def insert_to_supabase_def faq_chunk_def digit_def Let_def)

text \<open>
  C8 fails in the code. \<open>time.sleep\<close> is the last statement of the \<open>try\<close> block, so a
  chunk that fails is followed by no delay: for two chunks of which the first fails in its
  embedding call, nothing but the printing of the error lies between the two embedding
  calls.
\<close>

theorem seeding_no_delay_after_failure:
  "seed_trace (snd (main (fails_at 0) (Inr two_chunks) [])) =
     [Embedding_call 0, Error_printed ''Embedding API error: Model is loading'',
      Embedding_call 1, Insert_call 1, Sleep_ms 500]
   \<and> \<not> delayed True (seed_trace (snd (main (fails_at 0) (Inr two_chunks) [])))"
  by (simp add: two_chunks_run)

end
